theory Spec2Isabelle
  imports Main "HOL-Library.Word"
begin

unbundle bit_operations_syntax

section \<open>The DYMO LabelWriter service of src/dymo-services.js\<close>

text \<open>
  A shallow embedding of the class \<open>DymoServices\<close>: the command encoder
  (\<open>init\<close>, \<open>printBitmap\<close>), the transport dispatcher (\<open>sendDataToPrinter\<close> and the four
  \<open>sendDataTo...Printer\<close> functions), printer discovery (\<open>listPrinters\<close> and its two
  platform variants) and the construction-time validation. The method \<open>print\<close> is
  \<open>printBitmap\<close> after the image conversion of image-services.js, which is not part of
  this file, and is left out, as is the table \<open>DYMO_LABELS\<close>, which no function reads.

  Conventions of the model.
  \<^item> A JavaScript number that the code uses as a count, a length or a byte is an \<open>int\<close>;
    numbers that are not integers are outside the model.
  \<^item> A \<open>Buffer\<close> is a list of bytes (\<open>8 word\<close>); \<open>Buffer.from(array)\<close> keeps the low
    eight bits of every entry, as Node does.
  \<^item> A JavaScript string is a \<open>string\<close>, a list of code units below 256; an optional
    string (a property that may be \<open>undefined\<close>) is a \<open>string option\<close>.
  \<^item> A promise that settles is its outcome: \<open>Inr\<close> the value it resolves with, \<open>Inl\<close>
    the error it rejects with. An exception thrown synchronously is \<open>Inl\<close> as well.
  \<^item> Everything outside the class (the process runner \<open>execute\<close>, the file system,
    the socket, the random source, the platform name) is a field of the record
    \<open>system\<close>. Each call the code makes to one of them is appended to a log of
    type \<open>call list\<close>, and each answer may depend on the log so far.
\<close>

subsection \<open>Bytes and buffers\<close>

type_synonym byte = "8 word"
type_synonym buffer = "byte list"

text \<open>\<open>Buffer.from(array)\<close>: every entry is reduced to its low eight bits.\<close>

definition Buffer_from :: "int list \<Rightarrow> buffer" where
  "Buffer_from xs = map word_of_int xs"

text \<open>\<open>Buffer.concat(list)\<close>.\<close>

definition Buffer_concat :: "buffer list \<Rightarrow> buffer" where
  "Buffer_concat bs = concat bs"

text \<open>\<open>s.charCodeAt(0)\<close> of a one-character string literal.\<close>

definition charCodeAt0 :: "string \<Rightarrow> int" where
  "charCodeAt0 s = (case s of [] \<Rightarrow> 0 | c # _ \<Rightarrow> of_char c)"

subsection \<open>JavaScript's 32-bit integer operators\<close>

text \<open>
  \<open>a & b\<close> and \<open>a >> k\<close> convert their operands to signed 32-bit integers; the shift
  is arithmetic and uses the low five bits of the count.
\<close>

definition js_and :: "int \<Rightarrow> int \<Rightarrow> int" where
  "js_and a b = sint ((word_of_int a :: 32 word) AND word_of_int b)"

definition js_shr :: "int \<Rightarrow> int \<Rightarrow> int" where
  "js_shr a k = sint (signed_drop_bit (nat (k mod 32)) (word_of_int a :: 32 word))"

text \<open>\<open>Math.ceil(a / b)\<close> for an integer \<open>a\<close> and a positive integer \<open>b\<close>.\<close>

definition Math_ceil_div :: "int \<Rightarrow> int \<Rightarrow> int" where
  "Math_ceil_div a b = - ((- a) div b)"

subsection \<open>JavaScript strings\<close>

definition LF :: char where "LF = CHR 0x0A"
definition CR :: char where "CR = CHR 0x0D"

text \<open>White space and line terminators that \<open>trim\<close> removes, among code units below 256.\<close>

definition is_space :: "char \<Rightarrow> bool" where
  "is_space c = (c = CHR 0x09 \<or> c = CHR 0x0A \<or> c = CHR 0x0B \<or> c = CHR 0x0C \<or> c = CHR 0x0D
     \<or> c = CHR 0x20 \<or> c = CHR 0xA0)"

definition trim :: "string \<Rightarrow> string" where
  "trim s = rev (dropWhile is_space (rev (dropWhile is_space s)))"

text \<open>
  \<open>toLowerCase\<close> on code units below 256: the letters A to Z and the Latin-1 capitals
  0xC0 to 0xDE (the multiplication sign 0xD7 apart) move up by 32.
\<close>

definition lower_char :: "char \<Rightarrow> char" where
  "lower_char c =
     (let n = (of_char c :: nat) in
      if (65 \<le> n \<and> n \<le> 90) \<or> (192 \<le> n \<and> n \<le> 222 \<and> n \<noteq> 215) then char_of (n + 32) else c)"

definition toLowerCase :: "string \<Rightarrow> string" where
  "toLowerCase s = map lower_char s"

fun startsWith :: "string \<Rightarrow> string \<Rightarrow> bool" where
  "startsWith s [] = True"
| "startsWith [] (p # ps) = False"
| "startsWith (c # cs) (p # ps) = (c = p \<and> startsWith cs ps)"

text \<open>\<open>s.indexOf(sub)\<close>, counting from \<open>i\<close>: the first position where \<open>sub\<close> starts, or -1.\<close>

fun indexOf_from :: "string \<Rightarrow> string \<Rightarrow> int \<Rightarrow> int" where
  "indexOf_from [] sub i = (if sub = [] then i else - 1)"
| "indexOf_from (c # cs) sub i =
     (if startsWith (c # cs) sub then i else indexOf_from cs sub (i + 1))"

definition indexOf :: "string \<Rightarrow> string \<Rightarrow> int" where
  "indexOf s sub = indexOf_from s sub 0"

text \<open>\<open>s.split(d)\<close> for a one-character separator \<open>d\<close>; the result is never empty.\<close>

fun split_char :: "char \<Rightarrow> string \<Rightarrow> string list" where
  "split_char d [] = [[]]"
| "split_char d (c # cs) =
     (if c = d then [] # split_char d cs
      else (case split_char d cs of [] \<Rightarrow> [[c]] | x # xs \<Rightarrow> (c # x) # xs))"

text \<open>\<open>s.split(/\r?\n/)\<close>.\<close>

fun split_lines :: "string \<Rightarrow> string list" where
  "split_lines [] = [[]]"
| "split_lines [c] = (if c = LF then [[], []] else [[c]])"
| "split_lines (c # d # cs) =
     (if c = CR \<and> d = LF then [] # split_lines cs
      else if c = LF then [] # split_lines (d # cs)
      else (case split_lines (d # cs) of [] \<Rightarrow> [[c]] | x # xs \<Rightarrow> (c # x) # xs))"

text \<open>
  The longest run of matches of \<open>\r?\n\<close> at the start of a string: how many there are,
  the text of the last one (what the capture group of \<open>(\r?\n){2,}\<close> holds) and the rest.
\<close>

fun match_newlines :: "string \<Rightarrow> nat \<times> string \<times> string" where
  "match_newlines [] = (0, [], [])"
| "match_newlines [c] = (if c = LF then (1, [c], []) else (0, [], [c]))"
| "match_newlines (c # d # cs) =
     (if c = CR \<and> d = LF then
        (case match_newlines cs of (n, l, r) \<Rightarrow> (Suc n, if n = 0 then [c, d] else l, r))
      else if c = LF then
        (case match_newlines (d # cs) of (n, l, r) \<Rightarrow> (Suc n, if n = 0 then [c] else l, r))
      else (0, [], c # d # cs))"

lemma match_newlines_rest:
  "match_newlines s = (n, l, r) \<Longrightarrow> length r + n \<le> length s"
  by (induction s arbitrary: n l r rule: match_newlines.induct)
     (auto split: if_splits prod.splits)

text \<open>
  \<open>s.split(/(\r?\n){2,}/)\<close>: the pieces between the separators and, after each piece
  but the last, the text the capture group matched. \<open>cur\<close> is the piece being read,
  reversed.
\<close>

function split_blank_lines_from :: "string \<Rightarrow> string \<Rightarrow> string list" where
  "split_blank_lines_from cur [] = [rev cur]"
| "split_blank_lines_from cur (c # cs) =
     (case match_newlines (c # cs) of (n, l, r) \<Rightarrow>
        if 2 \<le> n then rev cur # l # split_blank_lines_from [] r
        else split_blank_lines_from (c # cur) cs)"
  by pat_completeness auto
termination
  by (relation "measure (\<lambda>(cur, s). length s)")
     (auto dest: match_newlines_rest [OF sym])

declare split_blank_lines_from.simps [simp del]

definition split_blank_lines :: "string \<Rightarrow> string list" where
  "split_blank_lines s = split_blank_lines_from [] s"

text \<open>\<open>s.replace(/_+/g, " ")\<close>: every maximal run of underscores becomes one space.\<close>

function replace_underscores :: "string \<Rightarrow> string" where
  "replace_underscores [] = []"
| "replace_underscores (c # cs) =
     (if c = CHR ''_'' then CHR '' '' # replace_underscores (dropWhile (\<lambda>d. d = CHR ''_'') cs)
      else c # replace_underscores cs)"
  by pat_completeness auto
termination
  by (relation "measure length") (auto simp: less_Suc_eq_le length_dropWhile_le)

text \<open>
  A match of a pattern of ASCII letters and punctuation at the start of a string under
  the flag \<open>i\<close>: code units are compared up to case.
\<close>

definition startsWith_ci :: "string \<Rightarrow> string \<Rightarrow> bool" where
  "startsWith_ci s pat = startsWith (toLowerCase s) (toLowerCase pat)"

text \<open>
  \<open>line.replace(/description:/gi, "")\<close>: every occurrence of the twelve characters,
  in any case, is removed, scanning from the left.
\<close>

fun remove_description :: "string \<Rightarrow> string" where
  "remove_description [] = []"
| "remove_description (c # cs) =
     (if startsWith_ci (c # cs) ''description:'' then remove_description (drop 11 cs)
      else c # remove_description cs)"

text \<open>A value in a condition: \<open>undefined\<close> and the empty string count as false.\<close>

definition js_truthy :: "string option \<Rightarrow> bool" where
  "js_truthy v = (case v of None \<Rightarrow> False | Some s \<Rightarrow> s \<noteq> [])"

text \<open>\<open>array.indexOf(x)\<close>, counting from \<open>i\<close>.\<close>

fun array_indexOf_from :: "'a list \<Rightarrow> 'a \<Rightarrow> int \<Rightarrow> int" where
  "array_indexOf_from [] x i = - 1"
| "array_indexOf_from (y # ys) x i = (if y = x then i else array_indexOf_from ys x (i + 1))"

definition array_indexOf :: "'a list \<Rightarrow> 'a \<Rightarrow> int" where
  "array_indexOf xs x = array_indexOf_from xs x 0"

subsection \<open>Printer commands\<close>

definition CMD_RESET :: buffer where
  "CMD_RESET = Buffer_from [0x1b, charCodeAt0 ''*'']"

definition CMD_FULL_FORM_FEED :: buffer where
  "CMD_FULL_FORM_FEED = Buffer_from [0x1b, charCodeAt0 ''E'']"

definition CMD_SHORT_FORM_FEED :: buffer where
  "CMD_SHORT_FORM_FEED = Buffer_from [0x1b, charCodeAt0 ''G'']"

definition CMD_TEXT_SPEED_MODE :: buffer where
  "CMD_TEXT_SPEED_MODE = Buffer_from [0x1b, charCodeAt0 ''h'']"

definition CMD_DENSITY_NORMAL :: buffer where
  "CMD_DENSITY_NORMAL = Buffer_from [0x1b, charCodeAt0 ''e'']"

definition CMD_NO_DOT_TAB :: buffer where
  "CMD_NO_DOT_TAB = Buffer_from [0x1b, charCodeAt0 ''B'', 0]"

definition CMD_START_ESC :: buffer where
  "CMD_START_ESC = Buffer_from (replicate 313 0x1b)"

definition PRINTER_INTERFACE_CUPS :: string where
  "PRINTER_INTERFACE_CUPS = ''CUPS''"

definition PRINTER_INTERFACE_NETWORK :: string where
  "PRINTER_INTERFACE_NETWORK = ''NETWORK''"

definition PRINTER_INTERFACE_WINDOWS :: string where
  "PRINTER_INTERFACE_WINDOWS = ''WINDOWS''"

definition PRINTER_INTERFACE_DEVICE :: string where
  "PRINTER_INTERFACE_DEVICE = ''DEVICE''"

subsection \<open>Errors, configuration and the service instance\<close>

text \<open>
  The code raises with \<open>throw Error(message)\<close> or \<open>reject(reason)\<close>. Each place that
  raises is a constructor here, grouped by the kind the specification gives it:
  \<^item> \<open>InvalidInput\<close>: the two checks at the head of \<open>printBitmap\<close>;
  \<^item> \<open>ConfigError\<close>: the check of \<open>validateConfig\<close>, the unknown interface at the end of
    \<open>sendDataToPrinter\<close>, the empty device of \<open>sendDataToDevicePrinter\<close> and the missing
    device id of \<open>sendDataToCupsPrinter\<close>;
  \<^item> \<open>PrinterNotFound\<close>: "Cannot find Dymo LabelWriter. Try to configure manually.";
  \<^item> \<open>UnsupportedPlatform\<close>: "Cannot list printers, unsupported operating system: ...";
  \<^item> \<open>SpoolerError\<close>: the reason a promise of \<open>execute\<close> rejected with, passed on as it is;
  \<^item> \<open>IOError\<close>: the error of a file-system call;
  \<^item> \<open>ConnectionError\<close> and \<open>Timeout\<close>: the socket's \<open>error\<close> and \<open>timeout\<close> events.
\<close>

datatype input_error = EmptyImageBuffer | PrintCountNotPositive int

datatype config_error =
    InvalidInterface string
  | UnknownInterface
  | DeviceNameEmpty
  | DeviceIdNotConfigured

datatype error =
    InvalidInput input_error
  | ConfigError config_error
  | PrinterNotFound
  | UnsupportedPlatform string
  | SpoolerError string
  | IOError string
  | ConnectionError string
  | Timeout

record PrinterConfig =
  interface :: "string option"
  host :: "string option"
  port :: "int option"
  deviceId :: "string option"
  device :: "string option"

record DymoServices =
  config :: PrinterConfig
  chunks :: "buffer list"

text \<open>A printer as discovery reports it: the object \<open>{deviceId, name}\<close>.\<close>

record PrinterDescriptor =
  p_deviceId :: string
  p_name :: string

subsection \<open>The world outside the class\<close>

text \<open>
  The calls the code makes: \<open>execute(command, args, stdin)\<close> of system-services.js,
  \<open>fs.writeFileSync\<close>, \<open>fs.unlinkSync\<close>, \<open>fs.writeFile\<close>, and one use of a socket
  (\<open>net.connect\<close> to a host and port, then the write of the buffer).
\<close>

datatype call =
    Execute string "string option list" "buffer option"
  | WriteFileSync string buffer
  | UnlinkSync string
  | WriteFile string buffer
  | Connect string int buffer

datatype socket_outcome = Written | SocketError string | SocketTimeout

text \<open>
  The answers of the world, each a function of the calls made so far. \<open>execute\<close> is
  not part of src/dymo-services.js; by its interface it resolves with the captured standard
  output (\<open>Inr\<close>) or rejects (\<open>Inl\<close>). A file-system call answers \<open>Some\<close> error when
  it fails. \<open>randomBytes_hex\<close> is \<open>crypto.randomBytes(16).toString("hex")\<close>.
\<close>

record system =
  platform :: string
  dirname :: string
  os_tmpdir :: string
  path_join :: "string \<Rightarrow> string \<Rightarrow> string"
  randomBytes_hex :: "call list \<Rightarrow> string"
  execute :: "call list \<Rightarrow> string \<Rightarrow> string option list \<Rightarrow> buffer option \<Rightarrow> string + string"
  writeFileSync :: "call list \<Rightarrow> string \<Rightarrow> buffer \<Rightarrow> string option"
  unlinkSync :: "call list \<Rightarrow> string \<Rightarrow> string option"
  writeFile :: "call list \<Rightarrow> string \<Rightarrow> buffer \<Rightarrow> string option"
  connect :: "call list \<Rightarrow> string \<Rightarrow> int \<Rightarrow> buffer \<Rightarrow> socket_outcome"

definition IS_WINDOWS :: "system \<Rightarrow> bool" where
  "IS_WINDOWS sys = (platform sys = ''win32'')"

definition IS_MACOS :: "system \<Rightarrow> bool" where
  "IS_MACOS sys = (platform sys = ''darwin'')"

definition IS_LINUX :: "system \<Rightarrow> bool" where
  "IS_LINUX sys = (platform sys = ''linux'')"

text \<open>A call of \<open>execute\<close>: its answer, and the log with the call added.\<close>

definition run_execute ::
  "system \<Rightarrow> string \<Rightarrow> string option list \<Rightarrow> buffer option \<Rightarrow> call list
    \<Rightarrow> (string + string) \<times> call list" where
  "run_execute sys cmd args stdin h = (execute sys h cmd args stdin, h @ [Execute cmd args stdin])"

subsection \<open>The four transports\<close>

text \<open>
  \<open>sendDataToNetworkPrinter(buffer, host = "localhost", port = 9100)\<close>: the socket
  connects and the buffer is written, or the socket reports an error or a timeout.
\<close>

definition sendDataToNetworkPrinter ::
  "system \<Rightarrow> buffer \<Rightarrow> string option \<Rightarrow> int option \<Rightarrow> call list
    \<Rightarrow> (error + unit) \<times> call list" where
  "sendDataToNetworkPrinter sys buffer host_arg port_arg h =
     (let host = (case host_arg of None \<Rightarrow> ''localhost'' | Some x \<Rightarrow> x);
          port = (case port_arg of None \<Rightarrow> 9100 | Some x \<Rightarrow> x);
          h1 = h @ [Connect host port buffer]
      in case connect sys h host port buffer of
           Written \<Rightarrow> (Inr (), h1)
         | SocketError err \<Rightarrow> (Inl (ConnectionError err), h1)
         | SocketTimeout \<Rightarrow> (Inl Timeout, h1))"

text \<open>\<open>sendDataToDevicePrinter(buffer, device)\<close>.\<close>

definition sendDataToDevicePrinter ::
  "system \<Rightarrow> buffer \<Rightarrow> string option \<Rightarrow> call list \<Rightarrow> (error + unit) \<times> call list" where
  "sendDataToDevicePrinter sys buffer device_arg h =
     (case device_arg of
        None \<Rightarrow> (Inl (ConfigError DeviceNameEmpty), h)
      | Some dev \<Rightarrow>
          if dev = [] then (Inl (ConfigError DeviceNameEmpty), h)
          else (case writeFile sys h dev buffer of
                  Some err \<Rightarrow> (Inl (IOError err), h @ [WriteFile dev buffer])
                | None \<Rightarrow> (Inr (), h @ [WriteFile dev buffer])))"

text \<open>\<open>sendDataToCupsPrinter(buffer, deviceId)\<close>: \<open>lp -d deviceId\<close>, the buffer on its input.\<close>

definition sendDataToCupsPrinter ::
  "system \<Rightarrow> buffer \<Rightarrow> string option \<Rightarrow> call list \<Rightarrow> (error + unit) \<times> call list" where
  "sendDataToCupsPrinter sys buffer deviceId_arg h =
     (case deviceId_arg of
        None \<Rightarrow> (Inl (ConfigError DeviceIdNotConfigured), h)
      | Some d \<Rightarrow>
          if d = [] then (Inl (ConfigError DeviceIdNotConfigured), h)
          else (case run_execute sys ''lp'' [Some ''-d'', Some d] (Some buffer) h of
                  (Inl reason, h1) \<Rightarrow> (Inl (SpoolerError reason), h1)
                | (Inr out, h1) \<Rightarrow> (Inr (), h1)))"

text \<open>
  \<open>tmpFile(prefix, suffix, tmpdir)\<close>: the three arguments are optional; the name is
  the prefix, 32 random hexadecimal digits and the suffix, in the given directory or
  the system's.
\<close>

definition tmpFile ::
  "system \<Rightarrow> string option \<Rightarrow> string option \<Rightarrow> string option \<Rightarrow> call list \<Rightarrow> string" where
  "tmpFile sys prefix_arg suffix_arg tmpdir_arg h =
     (let prefix = (case prefix_arg of None \<Rightarrow> ''tmp.'' | Some x \<Rightarrow> x);
          suffix = (case suffix_arg of None \<Rightarrow> [] | Some x \<Rightarrow> x);
          tmpdir = (if js_truthy tmpdir_arg then (case tmpdir_arg of None \<Rightarrow> [] | Some x \<Rightarrow> x)
                    else os_tmpdir sys)
      in path_join sys tmpdir (prefix @ randomBytes_hex sys h @ suffix))"

text \<open>
  \<open>sendDataToWindowsPrinter(buffer, deviceId)\<close>: the buffer goes to a temporary file,
  then \<open>RP.exe deviceId file\<close> runs; \<open>fs.unlinkSync\<close> stands in the \<open>then\<close> branch of the
  promise of \<open>execute\<close>, and its \<open>catch\<close> branch only rejects. The device id is passed on as
  it comes, \<open>undefined\<close> included. An exception of \<open>writeFileSync\<close> or \<open>unlinkSync\<close>
  rejects the promise.
\<close>

definition sendDataToWindowsPrinter ::
  "system \<Rightarrow> buffer \<Rightarrow> string option \<Rightarrow> call list \<Rightarrow> (error + unit) \<times> call list" where
  "sendDataToWindowsPrinter sys buffer deviceId_arg h =
     (let tmp = tmpFile sys None None None h;
          h1 = h @ [WriteFileSync tmp buffer]
      in case writeFileSync sys h tmp buffer of
           Some err \<Rightarrow> (Inl (IOError err), h1)
         | None \<Rightarrow>
            (case run_execute sys (path_join sys (dirname sys) ''RP.exe'')
                    [deviceId_arg, Some tmp] (Some buffer) h1 of
               (Inl reason, h2) \<Rightarrow> (Inl (SpoolerError reason), h2)
             | (Inr out, h2) \<Rightarrow>
                 (case unlinkSync sys h2 tmp of
                    Some err \<Rightarrow> (Inl (IOError err), h2 @ [UnlinkSync tmp])
                  | None \<Rightarrow> (Inr (), h2 @ [UnlinkSync tmp]))))"

subsection \<open>Printer discovery\<close>

text \<open>The rows of \<open>lpstat -e\<close>: blank rows are dropped, each other row is a printer.\<close>

definition lpstat_rows :: "string \<Rightarrow> string list" where
  "lpstat_rows stdout = filter (\<lambda>row. trim row \<noteq> []) (split_char LF stdout)"

definition row_printer :: "string \<Rightarrow> PrinterDescriptor" where
  "row_printer row = \<lparr>p_deviceId = trim row, p_name = trim (replace_underscores row)\<rparr>"

text \<open>
  The description in the output of \<open>lpstat -l -p id\<close>: of the lines that start with
  "description:" once trimmed, each with every "description:" removed and trimmed again,
  the first that is not empty.
\<close>

definition find_description :: "string \<Rightarrow> string option" where
  "find_description v =
     List.find (\<lambda>line. line \<noteq> [])
       (map (\<lambda>line. trim (remove_description line))
          (filter (\<lambda>line. startsWith_ci (trim line) ''description:'') (split_char LF v)))"

text \<open>
  One result of \<open>Promise.allSettled\<close> applied to its printer: \<open>Inl\<close> is a rejected
  lookup, \<open>Inr\<close> a fulfilled one with its output.
\<close>

definition update_name :: "PrinterDescriptor \<Rightarrow> string + string \<Rightarrow> PrinterDescriptor" where
  "update_name p r =
     (case r of
        Inl reason \<Rightarrow> p
      | Inr v \<Rightarrow>
          if v = [] then p
          else (case find_description v of None \<Rightarrow> p | Some d \<Rightarrow> p\<lparr>p_name := d\<rparr>))"

text \<open>The lookups, one per printer, started in the order of the list.\<close>

fun status_lookups ::
  "system \<Rightarrow> PrinterDescriptor list \<Rightarrow> call list \<Rightarrow> (string + string) list \<times> call list" where
  "status_lookups sys [] h = ([], h)"
| "status_lookups sys (p # ps) h =
     (case run_execute sys ''lpstat'' [Some ''-l'', Some ''-p'', Some (p_deviceId p)] None h of
        (r, h1) \<Rightarrow> (case status_lookups sys ps h1 of (rs, h2) \<Rightarrow> (r # rs, h2)))"

definition listPrintersMacLinux ::
  "system \<Rightarrow> call list \<Rightarrow> (error + PrinterDescriptor list) \<times> call list" where
  "listPrintersMacLinux sys h =
     (case run_execute sys ''lpstat'' [Some ''-e''] None h of
        (Inl reason, h1) \<Rightarrow> (Inl (SpoolerError reason), h1)
      | (Inr stdout, h1) \<Rightarrow>
          (let printers = map row_printer (lpstat_rows stdout)
           in case status_lookups sys printers h1 of
                (results, h2) \<Rightarrow>
                  (Inr (map (\<lambda>(p, r). update_name p r) (zip printers results)), h2)))"

text \<open>
  \<open>isValidPrinter\<close>: the loop of \<open>some\<close> over the lines of one block. A line is split
  at its colons and the parts are trimmed; the first part is the label, the second,
  if there is one, the value. The loop stops at the first line after which both fields
  are set and not empty.
\<close>

fun isValidPrinter_lines ::
  "string list \<Rightarrow> string option \<Rightarrow> string option \<Rightarrow> bool \<times> string option \<times> string option" where
  "isValidPrinter_lines [] d n = (False, d, n)"
| "isValidPrinter_lines (line # lines) d n =
     (let parts = map trim (split_char CHR '':'' line);
          label = (case parts of [] \<Rightarrow> [] | x # _ \<Rightarrow> x);
          val = (case parts of x # y # _ \<Rightarrow> Some y | _ \<Rightarrow> None);
          lowerLabel = toLowerCase label;
          d1 = (if lowerLabel = ''deviceid'' then val else d);
          n1 = (if lowerLabel = ''name'' then val else n)
      in if js_truthy d1 \<and> js_truthy n1 then (True, d1, n1)
         else isValidPrinter_lines lines d1 n1)"

definition isValidPrinter :: "string \<Rightarrow> bool \<times> string option \<times> string option" where
  "isValidPrinter printer = isValidPrinter_lines (split_lines printer) (Some []) (Some [])"

text \<open>\<open>stdoutHandler\<close>: the blocks of the output, trimmed, and the valid printers of them.\<close>

definition stdoutHandler :: "string \<Rightarrow> PrinterDescriptor list" where
  "stdoutHandler stdout =
     concat (map (\<lambda>printer.
          case isValidPrinter printer of
            (isValid, Some d, Some n) \<Rightarrow> if isValid then [\<lparr>p_deviceId = d, p_name = n\<rparr>] else []
          | _ \<Rightarrow> [])
       (filter (\<lambda>printer. printer \<noteq> []) (map trim (split_blank_lines stdout))))"

definition listPrintersWindows ::
  "system \<Rightarrow> call list \<Rightarrow> (error + PrinterDescriptor list) \<times> call list" where
  "listPrintersWindows sys h =
     (case run_execute sys ''Powershell.exe''
             [Some ''-Command'', Some ''Get-CimInstance Win32_Printer -Property DeviceID,Name'']
             None h of
        (Inl reason, h1) \<Rightarrow> (Inl (SpoolerError reason), h1)
      | (Inr stdout, h1) \<Rightarrow> (Inr (stdoutHandler stdout), h1))"

definition listPrinters ::
  "system \<Rightarrow> call list \<Rightarrow> (error + PrinterDescriptor list) \<times> call list" where
  "listPrinters sys h =
     (if IS_WINDOWS sys then listPrintersWindows sys h
      else if IS_MACOS sys \<or> IS_LINUX sys then listPrintersMacLinux sys h
      else (Inl (UnsupportedPlatform (platform sys)), h))"

subsection \<open>The dispatcher\<close>

text \<open>The test of \<open>printers.find\<close>: the name is not empty and its lower case holds "dymo".\<close>

definition is_dymo :: "PrinterDescriptor \<Rightarrow> bool" where
  "is_dymo printer = (p_name printer \<noteq> [] \<and> indexOf (toLowerCase (p_name printer)) ''dymo'' \<noteq> - 1)"

text \<open>
  \<open>sendDataToPrinter\<close>: the result of the promise, the instance (discovery writes
  to its configuration) and the log. The call to itself after a discovery is the
  recursion of the source.
\<close>

function sendDataToPrinter ::
  "system \<Rightarrow> DymoServices \<Rightarrow> call list \<Rightarrow> (error + unit) \<times> DymoServices \<times> call list" where
  "sendDataToPrinter sys s h =
     (let buffer = Buffer_concat (chunks s);
          printerInterface = interface (config s)
      in if \<not> js_truthy printerInterface then
           (case listPrinters sys h of
              (Inl reason, h1) \<Rightarrow> (Inl reason, s, h1)
            | (Inr printers, h1) \<Rightarrow>
                (case List.find is_dymo printers of
                   None \<Rightarrow> (Inl PrinterNotFound, s, h1)
                 | Some printer \<Rightarrow>
                     sendDataToPrinter sys
                       (s\<lparr>config := (config s)
                          \<lparr>interface := Some (if IS_WINDOWS sys then PRINTER_INTERFACE_WINDOWS
                                               else PRINTER_INTERFACE_CUPS),
                           deviceId := Some (p_deviceId printer)\<rparr>\<rparr>)
                       h1))
         else if printerInterface = Some PRINTER_INTERFACE_NETWORK then
           (case sendDataToNetworkPrinter sys buffer (host (config s)) (port (config s)) h of
              (r, h1) \<Rightarrow> (r, s, h1))
         else if printerInterface = Some PRINTER_INTERFACE_CUPS then
           (case sendDataToCupsPrinter sys buffer (deviceId (config s)) h of
              (r, h1) \<Rightarrow> (r, s, h1))
         else if printerInterface = Some PRINTER_INTERFACE_WINDOWS then
           (case sendDataToWindowsPrinter sys buffer (deviceId (config s)) h of
              (r, h1) \<Rightarrow> (r, s, h1))
         else if printerInterface = Some PRINTER_INTERFACE_DEVICE then
           (case sendDataToDevicePrinter sys buffer (device (config s)) h of
              (r, h1) \<Rightarrow> (r, s, h1))
         else (Inl (ConfigError UnknownInterface), s, h))"
  by pat_completeness auto
termination
  by (relation "measure (\<lambda>(sys, s, h). if js_truthy (interface (config s)) then 0 else 1)")
     (auto simp: js_truthy_def PRINTER_INTERFACE_WINDOWS_def PRINTER_INTERFACE_CUPS_def)

declare sendDataToPrinter.simps [simp del]

subsection \<open>The command encoder\<close>

text \<open>The bitmap: rows of numbers, \<open>number[][]\<close>.\<close>

type_synonym bitmap = "int list list"

definition clear :: "DymoServices \<Rightarrow> DymoServices" where
  "clear s = s\<lparr>chunks := []\<rparr>"

text \<open>
  \<open>append(buff)\<close>; every caller passes a \<open>Buffer\<close>, so the type check of the source
  never throws.
\<close>

definition append_chunk :: "buffer \<Rightarrow> DymoServices \<Rightarrow> DymoServices" where
  "append_chunk buff s = s\<lparr>chunks := chunks s @ [buff]\<rparr>"

definition init :: "int \<Rightarrow> int \<Rightarrow> DymoServices \<Rightarrow> DymoServices" where
  "init labelLineWidth labelLength s0 =
     (let s1 = clear s0;
          s2 = append_chunk CMD_START_ESC s1;
          s3 = append_chunk CMD_RESET s2;
          s4 = append_chunk CMD_NO_DOT_TAB s3;
          labelLineWidthBytes = Math_ceil_div labelLineWidth 8;
          s5 = append_chunk (Buffer_from [0x1b, charCodeAt0 ''D'', labelLineWidthBytes]) s4;
          lsb = js_and labelLength 0xff;
          msb = js_and (js_shr labelLength 8) 0xff;
          s6 = append_chunk (Buffer_from [0x1b, charCodeAt0 ''L'', msb, lsb]) s5;
          s7 = append_chunk CMD_TEXT_SPEED_MODE s6
      in append_chunk CMD_DENSITY_NORMAL s7)"

text \<open>The inner loop of \<open>printBitmap\<close>: one chunk per row, the marker 0x16 first.\<close>

fun append_rows :: "bitmap \<Rightarrow> DymoServices \<Rightarrow> DymoServices" where
  "append_rows [] s = s"
| "append_rows (row # rows) s = append_rows rows (append_chunk (Buffer_from (0x16 # row)) s)"

text \<open>The outer loop, \<open>for (let count = 1; count <= printCount; count++)\<close>, from \<open>count\<close> on.\<close>

function print_copies :: "bitmap \<Rightarrow> int \<Rightarrow> int \<Rightarrow> DymoServices \<Rightarrow> DymoServices" where
  "print_copies imageBuffer printCount count s =
     (if count \<le> printCount then
        (let s1 = append_rows imageBuffer s;
             s2 = (if count = printCount then append_chunk CMD_FULL_FORM_FEED s1
                   else append_chunk CMD_SHORT_FORM_FEED s1)
         in print_copies imageBuffer printCount (count + 1) s2)
      else s)"
  by pat_completeness auto
termination
  by (relation "measure (\<lambda>(imageBuffer, printCount, count, s). nat (printCount - count + 1))")
     auto

declare print_copies.simps [simp del]

text \<open>
  \<open>printBitmap(imageBuffer, printCount)\<close>: \<open>None\<close> is a bitmap that is \<open>null\<close> or
  \<open>undefined\<close>. The two checks throw before anything else happens.
\<close>

definition printBitmap ::
  "system \<Rightarrow> bitmap option \<Rightarrow> int \<Rightarrow> DymoServices \<Rightarrow> call list
    \<Rightarrow> (error + unit) \<times> DymoServices \<times> call list" where
  "printBitmap sys imageBuffer printCount s h =
     (case imageBuffer of
        None \<Rightarrow> (Inl (InvalidInput EmptyImageBuffer), s, h)
      | Some [] \<Rightarrow> (Inl (InvalidInput EmptyImageBuffer), s, h)
      | Some (row0 # rows) \<Rightarrow>
          if printCount \<le> 0 then (Inl (InvalidInput (PrintCountNotPositive printCount)), s, h)
          else
            (let labelLineWidth = int (length row0) * 8;
                 labelLength = int (length (row0 # rows));
                 s1 = init labelLineWidth labelLength s;
                 s2 = print_copies (row0 # rows) printCount 1 s1
             in sendDataToPrinter sys s2 h))"

subsection \<open>Construction\<close>

definition INTERFACES :: "string list" where
  "INTERFACES = [PRINTER_INTERFACE_NETWORK, PRINTER_INTERFACE_CUPS, PRINTER_INTERFACE_WINDOWS,
     PRINTER_INTERFACE_DEVICE]"

definition validateConfig :: "PrinterConfig \<Rightarrow> error + unit" where
  "validateConfig cfg =
     (case interface cfg of
        None \<Rightarrow> Inr ()
      | Some i \<Rightarrow>
          if i \<noteq> [] \<and> array_indexOf INTERFACES i = - 1 then Inl (ConfigError (InvalidInterface i))
          else Inr ())"

text \<open>The field initialiser \<open>config = {}\<close>.\<close>

definition empty_config :: PrinterConfig where
  "empty_config = \<lparr>interface = None, host = None, port = None, deviceId = None, device = None\<rparr>"

text \<open>\<open>Object.assign(target, source)\<close> on configurations: the fields the source has win.\<close>

definition Object_assign :: "PrinterConfig \<Rightarrow> PrinterConfig \<Rightarrow> PrinterConfig" where
  "Object_assign target source =
     \<lparr>interface = (case interface source of None \<Rightarrow> interface target | Some x \<Rightarrow> Some x),
      host = (case host source of None \<Rightarrow> host target | Some x \<Rightarrow> Some x),
      port = (case port source of None \<Rightarrow> port target | Some x \<Rightarrow> Some x),
      deviceId = (case deviceId source of None \<Rightarrow> deviceId target | Some x \<Rightarrow> Some x),
      device = (case device source of None \<Rightarrow> device target | Some x \<Rightarrow> Some x)\<rparr>"

text \<open>\<open>new DymoServices(config)\<close>: the instance, or the error \<open>validateConfig\<close> throws.\<close>

definition constructor :: "PrinterConfig option \<Rightarrow> error + DymoServices" where
  "constructor config_arg =
     (case config_arg of
        None \<Rightarrow> Inr \<lparr>config = empty_config, chunks = []\<rparr>
      | Some c \<Rightarrow>
          (let cfg = Object_assign empty_config c
           in case validateConfig cfg of
                Inl err \<Rightarrow> Inl err
              | Inr u \<Rightarrow> Inr \<lparr>config = cfg, chunks = []\<rparr>))"

subsection \<open>Example systems\<close>

text \<open>
  Concrete worlds on which the functions above can be run. On a Unix-like platform the
  spooler knows two destinations, \<open>Office_Laser\<close>, whose status lookup fails, and
  \<open>LW450\<close>, whose status holds a description; on Windows the management query reports a
  fax and a label printer. The file system and the socket never fail.
\<close>

definition example_destinations :: string where
  "example_destinations = ''Office_Laser'' @ [LF] @ ''LW450'' @ [LF]"

definition example_status :: string where
  "example_status =
     ''printer LW450 is idle.'' @ [LF, CHR 0x09] @ ''Description: DYMO LabelWriter 450'' @ [LF]"

definition example_records :: string where
  "example_records =
     ''DeviceID : Fax'' @ [CR, LF] @ ''Name     : Fax'' @ [CR, LF, CR, LF]
     @ ''DeviceID : DYMO LabelWriter 450'' @ [CR, LF]
     @ ''Name     : DYMO LabelWriter 450'' @ [CR, LF]"

definition example_execute ::
  "call list \<Rightarrow> string \<Rightarrow> string option list \<Rightarrow> buffer option \<Rightarrow> string + string" where
  "example_execute h cmd args stdin =
     (if cmd = ''lpstat'' \<and> args = [Some ''-e''] then Inr example_destinations
      else if cmd = ''lpstat'' \<and> args = [Some ''-l'', Some ''-p'', Some ''LW450''] then
        Inr example_status
      else if cmd = ''lp'' then Inr ''request id is LW450-1 (1 file(s))''
      else if cmd = ''Powershell.exe'' then Inr example_records
      else if cmd = ''C:/app/RP.exe'' then Inr []
      else Inl ''exit code 1'')"

definition example_system :: "string \<Rightarrow> system" where
  "example_system p =
     \<lparr>platform = p, dirname = (if p = ''win32'' then ''C:/app'' else ''/app''),
      os_tmpdir = (if p = ''win32'' then ''C:/Temp'' else ''/tmp''),
      path_join = (\<lambda>a b. a @ ''/'' @ b),
      randomBytes_hex = (\<lambda>h. ''000102030405060708090a0b0c0d0e0f''),
      execute = example_execute,
      writeFileSync = (\<lambda>h path buffer. None),
      unlinkSync = (\<lambda>h path. None),
      writeFile = (\<lambda>h path buffer. None),
      connect = (\<lambda>h host port buffer. Written)\<rparr>"

definition example_service :: DymoServices where
  "example_service = \<lparr>config = empty_config, chunks = [[9]]\<rparr>"

section \<open>Properties\<close>

subsection \<open>Arithmetic of the derived command bytes\<close>

lemma js_and_255: "js_and a 0xff = a mod 256"
proof -
  have m: "(0xff :: 32 word) = mask 8" by (simp add: mask_eq_exp_minus_1)
  have "sint ((word_of_int a :: 32 word) AND mask 8) = take_bit 8 a"
    by (rule bit_eqI) (auto simp add: bit_simps)
  then show ?thesis
    by (simp add: js_and_def take_bit_eq_mod m)
qed

lemma js_shr_8: "js_shr a 8 mod 256 = a div 256 mod 256"
proof -
  have "take_bit 8 (sint (signed_drop_bit 8 (word_of_int a :: 32 word))) = take_bit 8 (drop_bit 8 a)"
    by (rule bit_eqI) (auto simp add: bit_simps)
  then show ?thesis
    by (simp add: js_shr_def take_bit_eq_mod drop_bit_eq_div)
qed

lemma uint_Buffer_from: "map uint (Buffer_from xs) = map (\<lambda>x. x mod 256) xs"
  by (simp add: Buffer_from_def uint_word_of_int take_bit_eq_mod)

lemma Math_ceil_div_8: "Math_ceil_div (n * 8) 8 = n"
  by (simp add: Math_ceil_div_def)

subsection \<open>The chunks the encoder appends\<close>

lemma chunks_append_rows:
  "chunks (append_rows rows s) = chunks s @ map (\<lambda>row. Buffer_from (0x16 # row)) rows"
  by (induction rows arbitrary: s) (simp_all add: append_chunk_def)

lemma chunks_print_copies:
  "chunks (print_copies imageBuffer printCount count s) =
     chunks s @ concat (map (\<lambda>k. map (\<lambda>row. Buffer_from (0x16 # row)) imageBuffer
       @ [if k = printCount then CMD_FULL_FORM_FEED else CMD_SHORT_FORM_FEED]) [count..printCount])"
proof (induction imageBuffer printCount count s rule: print_copies.induct)
  case (1 imageBuffer printCount count s)
  show ?case
  proof (cases "count \<le> printCount")
    case True
    then have u: "[count..printCount] = count # [count + 1..printCount]"
      by (simp add: upto_rec1)
    show ?thesis
      using True "1.IH" [OF True refl refl]
      by (subst print_copies.simps)
         (simp add: u chunks_append_rows append_chunk_def Let_def)
  next
    case False
    then show ?thesis
      by (subst print_copies.simps) simp
  qed
qed

lemma chunks_init:
  "chunks (init labelLineWidth labelLength s) =
     [CMD_START_ESC, CMD_RESET, CMD_NO_DOT_TAB,
      Buffer_from [0x1b, 0x44, Math_ceil_div labelLineWidth 8],
      Buffer_from [0x1b, 0x4C, js_and (js_shr labelLength 8) 0xff, js_and labelLength 0xff],
      CMD_TEXT_SPEED_MODE, CMD_DENSITY_NORMAL]"
  by (simp add: init_def clear_def append_chunk_def Let_def charCodeAt0_def)

lemma chunks_sendDataToPrinter:
  "chunks (fst (snd (sendDataToPrinter sys s h))) = chunks s"
proof (induction sys s h rule: sendDataToPrinter.induct)
  case (1 sys s h)
  show ?case
    apply (subst sendDataToPrinter.simps)
    using "1.IH"
    apply (auto simp: Let_def split: prod.splits sum.splits option.splits)
    done
qed

lemma chunks_printBitmap:
  assumes "imageBuffer \<noteq> []" and "1 \<le> printCount"
  shows "chunks (fst (snd (printBitmap sys (Some imageBuffer) printCount s h))) =
     [CMD_START_ESC, CMD_RESET, CMD_NO_DOT_TAB,
      Buffer_from [0x1b, 0x44, int (length (hd imageBuffer))],
      Buffer_from [0x1b, 0x4C, int (length imageBuffer) div 256 mod 256,
        int (length imageBuffer) mod 256],
      CMD_TEXT_SPEED_MODE, CMD_DENSITY_NORMAL]
     @ concat (map (\<lambda>k. map (\<lambda>row. Buffer_from (0x16 # row)) imageBuffer
         @ [if k = printCount then CMD_FULL_FORM_FEED else CMD_SHORT_FORM_FEED]) [1..printCount])"
proof -
  obtain row0 rows where img: "imageBuffer = row0 # rows"
    using assms(1) by (cases imageBuffer) auto
  have "\<not> printCount \<le> 0" using assms(2) by simp
  then show ?thesis
    unfolding img printBitmap_def
    by (simp add: Let_def chunks_sendDataToPrinter chunks_print_copies chunks_init
          Math_ceil_div_8 js_and_255 js_shr_8)
qed

lemma uint_frame_rows:
  assumes "\<forall>row\<in>set imageBuffer. \<forall>b\<in>set row. 0 \<le> b \<and> b < 256"
  shows "map uint (concat (map (\<lambda>row. Buffer_from (0x16 # row)) imageBuffer)) =
         concat (map (\<lambda>row. 0x16 # row) imageBuffer)"
  using assms
proof (induction imageBuffer)
  case Nil
  then show ?case by simp
next
  case (Cons row rows)
  have "map (\<lambda>x. x mod 256) row = row"
    using Cons.prems by (simp add: map_idI)
  then show ?case
    using Cons by (simp add: uint_Buffer_from)
qed

lemma uint_copies:
  assumes "\<forall>row\<in>set imageBuffer. \<forall>b\<in>set row. 0 \<le> b \<and> b < 256"
  shows "map uint (concat (concat (map (\<lambda>k. map (\<lambda>row. Buffer_from (0x16 # row)) imageBuffer
         @ [if k = printCount then CMD_FULL_FORM_FEED else CMD_SHORT_FORM_FEED]) ks))) =
     concat (map (\<lambda>k. concat (map (\<lambda>row. 0x16 # row) imageBuffer)
         @ (if k = printCount then [0x1B, 0x45] else [0x1B, 0x47])) ks)"
proof (induction ks)
  case Nil
  show ?case by simp
next
  case (Cons k ks)
  show ?case
    using Cons uint_frame_rows [OF assms]
    by (simp add: CMD_FULL_FORM_FEED_def CMD_SHORT_FORM_FEED_def Buffer_from_def charCodeAt0_def)
qed

lemma uint_header:
  "map uint (concat [CMD_START_ESC, CMD_RESET, CMD_NO_DOT_TAB,
      Buffer_from [0x1b, 0x44, n], Buffer_from [0x1b, 0x4C, m, l],
      CMD_TEXT_SPEED_MODE, CMD_DENSITY_NORMAL]) =
   replicate 313 0x1B @ [0x1B, 0x2A] @ [0x1B, 0x42, 0x00] @ [0x1B, 0x44, n mod 256]
     @ [0x1B, 0x4C, m mod 256, l mod 256] @ [0x1B, 0x68] @ [0x1B, 0x65]"
  by (simp add: CMD_START_ESC_def CMD_RESET_def CMD_NO_DOT_TAB_def CMD_TEXT_SPEED_MODE_def
        CMD_DENSITY_NORMAL_def Buffer_from_def charCodeAt0_def uint_word_of_int take_bit_eq_mod)

subsection \<open>C1: the order of the command stream\<close>

text \<open>
  Claim C1. For a bitmap with at least one row and a copy count of at least 1,
  \<open>printBitmap\<close> leaves in the working buffer, whatever it held before, exactly: 313
  escape bytes, RESET (1B 2A), NO_DOT_TAB (1B 42 00), SET_BYTES_PER_LINE (1B 44 n),
  SET_LABEL_LENGTH (1B 4C msb lsb), TEXT_SPEED_MODE (1B 68), DENSITY_NORMAL (1B 65), and
  then for each copy every row, the marker 0x16 before its bytes, followed by
  SHORT_FORM_FEED (1B 47) after each copy but the last and by FULL_FORM_FEED (1B 45)
  after the last. The rows are rows of bytes (numbers from 0 to 255), and the bytes of
  the buffer are read as numbers.
\<close>

theorem printBitmap_command_stream:
  assumes "imageBuffer \<noteq> []" and "1 \<le> printCount"
    and "\<forall>row\<in>set imageBuffer. \<forall>b\<in>set row. 0 \<le> b \<and> b < 256"
  shows "map uint (Buffer_concat (chunks (fst (snd
            (printBitmap sys (Some imageBuffer) printCount s h))))) =
     replicate 313 0x1B @ [0x1B, 0x2A] @ [0x1B, 0x42, 0x00]
     @ [0x1B, 0x44, int (length (hd imageBuffer)) mod 256]
     @ [0x1B, 0x4C, int (length imageBuffer) div 256 mod 256, int (length imageBuffer) mod 256]
     @ [0x1B, 0x68] @ [0x1B, 0x65]
     @ concat (map (\<lambda>count. concat (map (\<lambda>row. 0x16 # row) imageBuffer)
          @ (if count = printCount then [0x1B, 0x45] else [0x1B, 0x47])) [1..printCount])"
proof -
  have "map uint (Buffer_concat (chunks (fst (snd
            (printBitmap sys (Some imageBuffer) printCount s h))))) =
     map uint (concat [CMD_START_ESC, CMD_RESET, CMD_NO_DOT_TAB,
        Buffer_from [0x1b, 0x44, int (length (hd imageBuffer))],
        Buffer_from [0x1b, 0x4C, int (length imageBuffer) div 256 mod 256,
          int (length imageBuffer) mod 256],
        CMD_TEXT_SPEED_MODE, CMD_DENSITY_NORMAL])
     @ map uint (concat (concat (map (\<lambda>k. map (\<lambda>row. Buffer_from (0x16 # row)) imageBuffer
         @ [if k = printCount then CMD_FULL_FORM_FEED else CMD_SHORT_FORM_FEED]) [1..printCount])))"
    unfolding chunks_printBitmap [OF assms(1,2)] Buffer_concat_def
    by (simp only: concat_append map_append)
  also have "\<dots> = replicate 313 0x1B @ [0x1B, 0x2A] @ [0x1B, 0x42, 0x00]
     @ [0x1B, 0x44, int (length (hd imageBuffer)) mod 256]
     @ [0x1B, 0x4C, int (length imageBuffer) div 256 mod 256, int (length imageBuffer) mod 256]
     @ [0x1B, 0x68] @ [0x1B, 0x65]
     @ concat (map (\<lambda>count. concat (map (\<lambda>row. 0x16 # row) imageBuffer)
          @ (if count = printCount then [0x1B, 0x45] else [0x1B, 0x47])) [1..printCount])"
    unfolding uint_header uint_copies [OF assms(3)]
    by (simp only: append_assoc mod_mod_trivial)
  finally show ?thesis .
qed

theorem printBitmap_command_stream_witness:
  "map uint (Buffer_concat (chunks (fst (snd
      (printBitmap (example_system ''linux'') (Some [[1, 2], [3]]) 2 example_service []))))) =
   replicate 313 0x1B
   @ [0x1B, 0x2A, 0x1B, 0x42, 0x00, 0x1B, 0x44, 2, 0x1B, 0x4C, 0, 2, 0x1B, 0x68, 0x1B, 0x65]
   @ [0x16, 1, 2, 0x16, 3, 0x1B, 0x47]
   @ [0x16, 1, 2, 0x16, 3, 0x1B, 0x45]"
  using printBitmap_command_stream
    [of "[[1, 2], [3]]" 2 "example_system ''linux''" example_service "[]"]
  by (simp add: upto.simps)

subsection \<open>C5: the bytes of SET_LABEL_LENGTH\<close>

text \<open>
  Claim C5. For a bitmap of \<open>len\<close> rows the fifth chunk of the job is the command
  1B 4C msb lsb with \<open>lsb = len & 0xFF\<close> and \<open>msb = (len >> 8) & 0xFF\<close>. These are the
  low byte and the second byte of \<open>len\<close>, so for fewer than 65536 rows they are the
  big-endian split of the row count, and for 1052 rows they are 0x04 and 0x1C.
\<close>

theorem set_label_length_bytes:
  assumes "imageBuffer \<noteq> []" and "1 \<le> printCount"
  shows "(let len = int (length imageBuffer);
              lsb = js_and len 0xff;
              msb = js_and (js_shr len 8) 0xff;
              command = chunks (fst (snd (printBitmap sys (Some imageBuffer) printCount s h))) ! 4
          in command = [0x1B, 0x4C, word_of_int msb, word_of_int lsb]
             \<and> lsb = len mod 256 \<and> msb = len div 256 mod 256
             \<and> uint (command ! 2) = msb \<and> uint (command ! 3) = lsb
             \<and> (len < 65536 \<longrightarrow> 256 * msb + lsb = len)
             \<and> (len = 1052 \<longrightarrow> command = [0x1B, 0x4C, 0x04, 0x1C]))"
proof -
  have c: "chunks (fst (snd (printBitmap sys (Some imageBuffer) printCount s h))) ! 4 =
      Buffer_from [0x1b, 0x4C, int (length imageBuffer) div 256 mod 256,
        int (length imageBuffer) mod 256]"
    by (simp add: chunks_printBitmap [OF assms])
  show ?thesis
    unfolding Let_def c
    by (simp add: js_and_255 js_shr_8 Buffer_from_def uint_word_of_int take_bit_eq_mod)
qed

theorem set_label_length_bytes_witness:
  "chunks (fst (snd (printBitmap (example_system ''linux'') (Some (replicate 1052 [0, 255])) 1
      example_service []))) ! 4 = [0x1B, 0x4C, 0x04, 0x1C]"
  using set_label_length_bytes
    [of "replicate 1052 [0, 255]" 1 "example_system ''linux''" example_service "[]"]
  by (simp add: Let_def)

subsection \<open>C8: the byte of SET_BYTES_PER_LINE\<close>

text \<open>
  Claim C8, as amended. For a bitmap with at least one row the fourth chunk of the job
  is the command 1B 44 n, where n is the length of the first row reduced modulo 256
  (\<open>Buffer.from\<close> keeps the low eight bits of \<open>Math.ceil(row[0].length * 8 / 8)\<close>). It
  is the length of the first row whenever that row has fewer than 256 bytes, and a
  first row of 42 bytes gives 42; the other rows play no part.
\<close>

theorem set_bytes_per_line_byte:
  assumes "imageBuffer \<noteq> []" and "1 \<le> printCount"
  shows "(let n = length (hd imageBuffer);
              command = chunks (fst (snd (printBitmap sys (Some imageBuffer) printCount s h))) ! 3
          in Math_ceil_div (int n * 8) 8 = int n
             \<and> command = [0x1B, 0x44, of_nat n]
             \<and> unat (command ! 2) = n mod 256
             \<and> (n < 256 \<longrightarrow> unat (command ! 2) = n)
             \<and> (n = 42 \<longrightarrow> command = [0x1B, 0x44, 42]))"
proof -
  have c: "chunks (fst (snd (printBitmap sys (Some imageBuffer) printCount s h))) ! 3 =
      Buffer_from [0x1b, 0x44, int (length (hd imageBuffer))]"
    by (simp add: chunks_printBitmap [OF assms])
  show ?thesis
    unfolding Let_def c
    by (simp add: Buffer_from_def unat_of_nat Math_ceil_div_8)
qed

theorem set_bytes_per_line_byte_witness:
  "chunks (fst (snd (printBitmap (example_system ''linux'')
      (Some [replicate 42 0, [1, 2, 3], []]) 1 example_service []))) ! 3 = [0x1B, 0x44, 42]"
  using set_bytes_per_line_byte
    [of "[replicate 42 0, [1, 2, 3], []]" 1 "example_system ''linux''" example_service "[]"]
  by (simp add: Let_def)

text \<open>
  The claim as it was stated, for every bitmap, fails for a first row of 256 bytes: the
  parameter byte is 0.
\<close>

theorem set_bytes_per_line_counterexample:
  "length (hd [replicate 256 (0::int)]) = 256
   \<and> chunks (fst (snd (printBitmap (example_system ''linux'') (Some [replicate 256 0]) 1
      example_service []))) ! 3 = [0x1B, 0x44, 0]
   \<and> uint (chunks (fst (snd (printBitmap (example_system ''linux'') (Some [replicate 256 0]) 1
      example_service []))) ! 3 ! 2) \<noteq> int (length (hd [replicate 256 (0::int)]))"
proof -
  have "chunks (fst (snd (printBitmap (example_system ''linux'') (Some [replicate 256 0]) 1
      example_service []))) ! 3 = Buffer_from [0x1b, 0x44, int (length (hd [replicate 256 (0::int)]))]"
    by (subst chunks_printBitmap) simp_all
  then show ?thesis
    by (simp add: Buffer_from_def)
qed

subsection \<open>No transport and no discovery reports an invalid input\<close>

lemma network_not_InvalidInput:
  "fst (sendDataToNetworkPrinter sys b ho po h) \<noteq> Inl (InvalidInput reason)"
  by (simp add: sendDataToNetworkPrinter_def Let_def split: socket_outcome.splits)

lemma cups_not_InvalidInput:
  "fst (sendDataToCupsPrinter sys b d h) \<noteq> Inl (InvalidInput reason)"
  by (simp add: sendDataToCupsPrinter_def split: option.splits prod.splits sum.splits)

lemma windows_not_InvalidInput:
  "fst (sendDataToWindowsPrinter sys b d h) \<noteq> Inl (InvalidInput reason)"
  by (simp add: sendDataToWindowsPrinter_def Let_def split: option.splits prod.splits sum.splits)

lemma device_not_InvalidInput:
  "fst (sendDataToDevicePrinter sys b d h) \<noteq> Inl (InvalidInput reason)"
  by (simp add: sendDataToDevicePrinter_def split: option.splits)

lemma listPrinters_not_InvalidInput:
  "fst (listPrinters sys h) \<noteq> Inl (InvalidInput reason)"
  by (simp add: listPrinters_def listPrintersWindows_def listPrintersMacLinux_def Let_def
        split: prod.splits sum.splits)

lemma sendDataToPrinter_not_InvalidInput:
  "fst (sendDataToPrinter sys s h) \<noteq> Inl (InvalidInput reason)"
proof (induction sys s h rule: sendDataToPrinter.induct)
  case (1 sys s h)
  show ?case
  proof (cases "js_truthy (interface (config s))")
    case True
    then show ?thesis
      by (subst sendDataToPrinter.simps)
         (simp add: Let_def case_prod_beta network_not_InvalidInput cups_not_InvalidInput
            windows_not_InvalidInput device_not_InvalidInput)
  next
    case False
    show ?thesis
    proof (cases "listPrinters sys h")
      case (Pair r h1)
      show ?thesis
      proof (cases r)
        case (Inl e)
        then show ?thesis
          using False Pair listPrinters_not_InvalidInput [of sys h reason]
          by (subst sendDataToPrinter.simps) (simp add: Let_def)
      next
        case (Inr printers)
        show ?thesis
        proof (cases "List.find is_dymo printers")
          case None
          then show ?thesis
            using False Pair Inr
            by (subst sendDataToPrinter.simps) (simp add: Let_def)
        next
          case (Some printer)
          then show ?thesis
            using False Pair Inr "1.IH" [OF refl refl False Pair [symmetric] Inr Some]
            by (subst sendDataToPrinter.simps) (simp add: Let_def)
        qed
      qed
    qed
  qed
qed

subsection \<open>C6: the checks of the input\<close>

text \<open>
  Claim C6. \<open>printBitmap\<close> fails with \<open>InvalidInput\<close> when the bitmap is \<open>null\<close>,
  \<open>undefined\<close> or has no rows, and when the copy count is 0 or negative; the log of
  calls to the world is then as it was, so no transport has been invoked.
\<close>

theorem printBitmap_rejects_invalid_input:
  "(imageBuffer = None \<or> imageBuffer = Some [] \<longrightarrow>
      printBitmap sys imageBuffer printCount s h = (Inl (InvalidInput EmptyImageBuffer), s, h))
   \<and> (printCount \<le> 0 \<longrightarrow>
      (\<exists>reason. fst (printBitmap sys imageBuffer printCount s h) = Inl (InvalidInput reason))
      \<and> snd (snd (printBitmap sys imageBuffer printCount s h)) = h)"
  by (auto simp: printBitmap_def split: option.splits list.splits)

theorem printBitmap_rejects_invalid_input_witness:
  "printBitmap (example_system ''linux'') (Some []) 1 example_service []
     = (Inl (InvalidInput EmptyImageBuffer), example_service, [])
   \<and> printBitmap (example_system ''linux'') None 1 example_service []
     = (Inl (InvalidInput EmptyImageBuffer), example_service, [])
   \<and> (\<exists>reason. fst (printBitmap (example_system ''linux'') (Some [[1, 2], [3]]) 0 example_service [])
     = Inl (InvalidInput reason))
   \<and> snd (snd (printBitmap (example_system ''linux'') (Some [[1, 2], [3]]) 0 example_service [])) = []"
  using printBitmap_rejects_invalid_input
      [of "Some []" "example_system ''linux''" 1 example_service "[]"]
    printBitmap_rejects_invalid_input
      [of None "example_system ''linux''" 1 example_service "[]"]
    printBitmap_rejects_invalid_input
      [of "Some [[1, 2], [3]]" "example_system ''linux''" 0 example_service "[]"]
  by simp

subsection \<open>C10: a rejected job leaves the working buffer alone\<close>

text \<open>
  Claim C10. Whenever \<open>printBitmap\<close> fails with \<open>InvalidInput\<close>, the chunks of the
  instance (and the whole instance) are what they were before the call.
\<close>

theorem printBitmap_invalid_input_keeps_buffer:
  assumes "printBitmap sys imageBuffer printCount s h = (Inl (InvalidInput reason), s', h')"
  shows "chunks s' = chunks s \<and> s' = s"
proof (cases "imageBuffer = None \<or> imageBuffer = Some [] \<or> printCount \<le> 0")
  case True
  then show ?thesis
    using assms by (auto simp: printBitmap_def split: option.splits list.splits if_splits)
next
  case False
  then obtain row0 rows where img: "imageBuffer = Some (row0 # rows)" and pc: "\<not> printCount \<le> 0"
    by (cases imageBuffer; cases "the imageBuffer") auto
  have "fst (printBitmap sys imageBuffer printCount s h) \<noteq> Inl (InvalidInput reason)"
    unfolding img printBitmap_def using pc
    by (simp add: Let_def sendDataToPrinter_not_InvalidInput)
  then show ?thesis using assms by simp
qed

theorem printBitmap_invalid_input_keeps_buffer_witness:
  "chunks (fst (snd (printBitmap (example_system ''linux'') (Some [[1, 2], [3]]) (- 1)
      example_service []))) = chunks example_service"
proof -
  have r: "printBitmap (example_system ''linux'') (Some [[1, 2], [3]]) (- 1) example_service []
      = (Inl (InvalidInput (PrintCountNotPositive (- 1))), example_service, [])"
    by (simp add: printBitmap_def)
  from printBitmap_invalid_input_keeps_buffer [OF r] show ?thesis
    by (simp add: r)
qed

subsection \<open>C7: validation at construction\<close>

lemma array_indexOf_from_eq:
  "0 \<le> i \<Longrightarrow> (array_indexOf_from xs x i = - 1) = (x \<notin> set xs)"
  by (induction xs arbitrary: i) auto

lemma array_indexOf_eq: "(array_indexOf xs x = - 1) = (x \<notin> set xs)"
  by (simp add: array_indexOf_def array_indexOf_from_eq)

lemma Object_assign_empty: "Object_assign empty_config c = c"
  by (simp add: Object_assign_def empty_config_def split: option.splits)

text \<open>
  Claim C7, as amended. Construction with a configuration whose \<open>interface\<close> is a
  string that is not empty and not one of NETWORK, CUPS, WINDOWS, DEVICE fails with
  \<open>ConfigError\<close>; construction without a configuration, or with \<open>interface\<close> absent,
  empty or one of the four values, succeeds and keeps the configuration. The constructor
  takes no system and no log: it makes no call to the world.
\<close>

theorem constructor_validates_interface:
  "constructor None = Inr \<lparr>config = empty_config, chunks = []\<rparr>
   \<and> (interface c = Some i \<and> i \<noteq> [] \<and> i \<notin> set [''NETWORK'', ''CUPS'', ''WINDOWS'', ''DEVICE'']
        \<longrightarrow> constructor (Some c) = Inl (ConfigError (InvalidInterface i)))
   \<and> (interface c = None \<or> interface c = Some []
        \<or> interface c \<in> Some ` set [''NETWORK'', ''CUPS'', ''WINDOWS'', ''DEVICE'']
        \<longrightarrow> constructor (Some c) = Inr \<lparr>config = c, chunks = []\<rparr>)"
  by (auto simp: constructor_def validateConfig_def Object_assign_empty array_indexOf_eq
        INTERFACES_def PRINTER_INTERFACE_NETWORK_def PRINTER_INTERFACE_CUPS_def
        PRINTER_INTERFACE_WINDOWS_def PRINTER_INTERFACE_DEVICE_def Let_def)

theorem constructor_validates_interface_witness:
  "constructor (Some (empty_config\<lparr>interface := Some ''BOGUS''\<rparr>))
     = Inl (ConfigError (InvalidInterface ''BOGUS''))
   \<and> constructor (Some (empty_config\<lparr>interface := Some ''CUPS''\<rparr>))
     = Inr \<lparr>config = empty_config\<lparr>interface := Some ''CUPS''\<rparr>, chunks = []\<rparr>
   \<and> constructor (Some empty_config) = Inr \<lparr>config = empty_config, chunks = []\<rparr>"
  using constructor_validates_interface [of "empty_config\<lparr>interface := Some ''BOGUS''\<rparr>" "''BOGUS''"]
    constructor_validates_interface [of "empty_config\<lparr>interface := Some ''CUPS''\<rparr>" "''CUPS''"]
    constructor_validates_interface [of empty_config "[]"]
  by (simp add: empty_config_def)

text \<open>
  The claim as it was stated fails for the empty string: the field is present, it is
  none of the four values, and construction succeeds (the check of \<open>validateConfig\<close>
  starts with \<open>config.interface &&\<close>).
\<close>

theorem constructor_empty_interface_counterexample:
  "interface (empty_config\<lparr>interface := Some ''''\<rparr>) = Some ''''
   \<and> '''' \<notin> set [''NETWORK'', ''CUPS'', ''WINDOWS'', ''DEVICE'']
   \<and> constructor (Some (empty_config\<lparr>interface := Some ''''\<rparr>))
       = Inr \<lparr>config = empty_config\<lparr>interface := Some ''''\<rparr>, chunks = []\<rparr>"
  by (simp add: constructor_def validateConfig_def Object_assign_empty)

subsection \<open>C4: discovery when no interface is configured\<close>

text \<open>\<open>indexOf\<close> finds a string exactly when it occurs.\<close>

lemma startsWith_iff: "startsWith s p = (\<exists>post. s = p @ post)"
  by (induction s p rule: startsWith.induct) auto

lemma indexOf_from_found:
  "0 \<le> i \<Longrightarrow> (indexOf_from s sub i \<noteq> - 1) = (\<exists>pre post. s = pre @ sub @ post)"
proof (induction s arbitrary: i)
  case Nil
  then show ?case by auto
next
  case (Cons c cs)
  show ?case
  proof (cases "startsWith (c # cs) sub")
    case True
    then obtain post where "c # cs = [] @ sub @ post"
      by (auto simp: startsWith_iff)
    then have "\<exists>pre post. c # cs = pre @ sub @ post" by blast
    then show ?thesis using True Cons.prems by simp
  next
    case False
    have "(\<exists>pre post. c # cs = pre @ sub @ post) = (\<exists>pre post. cs = pre @ sub @ post)"
    proof
      assume "\<exists>pre post. c # cs = pre @ sub @ post"
      then obtain pre post where e: "c # cs = pre @ sub @ post" by blast
      have "pre \<noteq> []"
        using False e by (auto simp: startsWith_iff)
      then obtain pre' where "pre = c # pre'"
        using e by (cases pre) auto
      then show "\<exists>pre post. cs = pre @ sub @ post"
        using e by auto
    next
      assume "\<exists>pre post. cs = pre @ sub @ post"
      then obtain pre post where "cs = pre @ sub @ post" by blast
      then have "c # cs = (c # pre) @ sub @ post" by simp
      then show "\<exists>pre post. c # cs = pre @ sub @ post" by blast
    qed
    then show ?thesis
      using False Cons.IH [of "i + 1"] Cons.prems by simp
  qed
qed

lemma is_dymo_iff:
  "is_dymo printer = (\<exists>pre post. toLowerCase (p_name printer) = pre @ ''dymo'' @ post)"
proof -
  have "(\<exists>pre post. toLowerCase (p_name printer) = pre @ ''dymo'' @ post) \<Longrightarrow> p_name printer \<noteq> []"
    by (auto simp: toLowerCase_def)
  then show ?thesis
    unfolding is_dymo_def indexOf_def
    using indexOf_from_found [of 0 "toLowerCase (p_name printer)" "''dymo''"] by auto
qed

text \<open>The two halves of \<open>sendDataToPrinter\<close>: discovery, and the choice of a transport.\<close>

lemma sendDataToPrinter_unset:
  assumes "\<not> js_truthy (interface (config s))"
  shows "sendDataToPrinter sys s h =
     (case listPrinters sys h of
        (Inl reason, h1) \<Rightarrow> (Inl reason, s, h1)
      | (Inr printers, h1) \<Rightarrow>
          (case List.find is_dymo printers of
             None \<Rightarrow> (Inl PrinterNotFound, s, h1)
           | Some printer \<Rightarrow>
               sendDataToPrinter sys
                 (s\<lparr>config := (config s)
                    \<lparr>interface := Some (if IS_WINDOWS sys then PRINTER_INTERFACE_WINDOWS
                                         else PRINTER_INTERFACE_CUPS),
                     deviceId := Some (p_deviceId printer)\<rparr>\<rparr>)
                 h1))"
  using assms by (subst sendDataToPrinter.simps) (simp add: Let_def)

lemma sendDataToPrinter_set:
  assumes "js_truthy (interface (config s))"
  shows "sendDataToPrinter sys s h =
     (let buffer = Buffer_concat (chunks s);
          printerInterface = interface (config s)
      in if printerInterface = Some PRINTER_INTERFACE_NETWORK then
           (case sendDataToNetworkPrinter sys buffer (host (config s)) (port (config s)) h of
              (r, h1) \<Rightarrow> (r, s, h1))
         else if printerInterface = Some PRINTER_INTERFACE_CUPS then
           (case sendDataToCupsPrinter sys buffer (deviceId (config s)) h of
              (r, h1) \<Rightarrow> (r, s, h1))
         else if printerInterface = Some PRINTER_INTERFACE_WINDOWS then
           (case sendDataToWindowsPrinter sys buffer (deviceId (config s)) h of
              (r, h1) \<Rightarrow> (r, s, h1))
         else if printerInterface = Some PRINTER_INTERFACE_DEVICE then
           (case sendDataToDevicePrinter sys buffer (device (config s)) h of
              (r, h1) \<Rightarrow> (r, s, h1))
         else (Inl (ConfigError UnknownInterface), s, h))"
  using assms by (subst sendDataToPrinter.simps) (simp add: Let_def)

text \<open>
  Claim C4, as amended. When \<open>config.interface\<close> is unset (absent or empty) at dispatch
  time, the dispatcher runs printer discovery. If discovery fails, the dispatcher fails
  with the error of discovery itself. Otherwise it takes the first printer whose
  name, in lower case, contains "dymo"; if there is none it fails with \<open>PrinterNotFound\<close>;
  if there is one it writes the interface (WINDOWS on the platform win32, CUPS on any
  other) and the printer's device id into the configuration of the instance, and the
  retried dispatch is one run of the Windows or the Cups transport with that device id,
  started from the log discovery left: the result, the configuration and the log of
  the whole call are those of that single run.
\<close>

theorem sendDataToPrinter_discovery:
  assumes "interface (config s) = None \<or> interface (config s) = Some []"
  shows
    "(\<forall>printer. is_dymo printer =
        (\<exists>pre post. toLowerCase (p_name printer) = pre @ ''dymo'' @ post))
     \<and> (\<forall>reason h1. listPrinters sys h = (Inl reason, h1) \<longrightarrow>
          sendDataToPrinter sys s h = (Inl reason, s, h1))
     \<and> (\<forall>printers h1. listPrinters sys h = (Inr printers, h1) \<longrightarrow>
          (case List.find is_dymo printers of
             None \<Rightarrow> sendDataToPrinter sys s h = (Inl PrinterNotFound, s, h1)
           | Some printer \<Rightarrow>
               (let s1 = s\<lparr>config := (config s)
                           \<lparr>interface := Some (if platform sys = ''win32'' then ''WINDOWS''
                                                else ''CUPS''),
                            deviceId := Some (p_deviceId printer)\<rparr>\<rparr>;
                    buffer = Buffer_concat (chunks s);
                    r = (if platform sys = ''win32''
                         then sendDataToWindowsPrinter sys buffer (Some (p_deviceId printer)) h1
                         else sendDataToCupsPrinter sys buffer (Some (p_deviceId printer)) h1)
                in sendDataToPrinter sys s h = (fst r, s1, snd r))))"
proof -
  have unset: "\<not> js_truthy (interface (config s))"
    using assms by (auto simp: js_truthy_def)
  have retry: "sendDataToPrinter sys
          (s\<lparr>config := (config s)
              \<lparr>interface := Some (if platform sys = ''win32'' then ''WINDOWS'' else ''CUPS''),
               deviceId := Some d\<rparr>\<rparr>) h1 =
        (let r = (if platform sys = ''win32''
                  then sendDataToWindowsPrinter sys (Buffer_concat (chunks s)) (Some d) h1
                  else sendDataToCupsPrinter sys (Buffer_concat (chunks s)) (Some d) h1)
         in (fst r,
             s\<lparr>config := (config s)
              \<lparr>interface := Some (if platform sys = ''win32'' then ''WINDOWS'' else ''CUPS''),
               deviceId := Some d\<rparr>\<rparr>, snd r))" for d h1
    by (subst sendDataToPrinter_set)
       (simp_all add: js_truthy_def Let_def case_prod_beta PRINTER_INTERFACE_NETWORK_def
          PRINTER_INTERFACE_CUPS_def PRINTER_INTERFACE_WINDOWS_def)
  show ?thesis
    using retry
    by (auto simp: is_dymo_iff sendDataToPrinter_unset [OF unset] Let_def IS_WINDOWS_def
          PRINTER_INTERFACE_CUPS_def PRINTER_INTERFACE_WINDOWS_def split: option.splits)
qed

text \<open>On the example system the second destination is the label printer.\<close>

lemma example_listPrinters_linux:
  "listPrinters (example_system ''linux'') [] =
     (Inr [\<lparr>p_deviceId = ''Office_Laser'', p_name = ''Office Laser''\<rparr>,
           \<lparr>p_deviceId = ''LW450'', p_name = ''DYMO LabelWriter 450''\<rparr>],
      [Execute ''lpstat'' [Some ''-e''] None,
       Execute ''lpstat'' [Some ''-l'', Some ''-p'', Some ''Office_Laser''] None,
       Execute ''lpstat'' [Some ''-l'', Some ''-p'', Some ''LW450''] None])"
  by code_simp

lemma example_find_dymo:
  "List.find is_dymo
     [\<lparr>p_deviceId = ''Office_Laser'', p_name = ''Office Laser''\<rparr>,
      \<lparr>p_deviceId = ''LW450'', p_name = ''DYMO LabelWriter 450''\<rparr>] =
   Some \<lparr>p_deviceId = ''LW450'', p_name = ''DYMO LabelWriter 450''\<rparr>"
  by code_simp

theorem sendDataToPrinter_discovery_witness:
  "sendDataToPrinter (example_system ''linux'') example_service [] =
     (Inr (),
      \<lparr>config = \<lparr>interface = Some ''CUPS'', host = None, port = None,
                  deviceId = Some ''LW450'', device = None\<rparr>,
       chunks = [[9]]\<rparr>,
      [Execute ''lpstat'' [Some ''-e''] None,
       Execute ''lpstat'' [Some ''-l'', Some ''-p'', Some ''Office_Laser''] None,
       Execute ''lpstat'' [Some ''-l'', Some ''-p'', Some ''LW450''] None,
       Execute ''lp'' [Some ''-d'', Some ''LW450''] (Some [9])])"
proof -
  have unset: "interface (config example_service) = None \<or> interface (config example_service) = Some []"
    by (simp add: example_service_def empty_config_def)
  have cups: "sendDataToCupsPrinter (example_system ''linux'') [9] (Some ''LW450'')
       [Execute ''lpstat'' [Some ''-e''] None,
        Execute ''lpstat'' [Some ''-l'', Some ''-p'', Some ''Office_Laser''] None,
        Execute ''lpstat'' [Some ''-l'', Some ''-p'', Some ''LW450''] None] =
     (Inr (),
      [Execute ''lpstat'' [Some ''-e''] None,
       Execute ''lpstat'' [Some ''-l'', Some ''-p'', Some ''Office_Laser''] None,
       Execute ''lpstat'' [Some ''-l'', Some ''-p'', Some ''LW450''] None,
       Execute ''lp'' [Some ''-d'', Some ''LW450''] (Some [9])])"
    by code_simp
  have p: "platform (example_system ''linux'') \<noteq> ''win32''"
    by (simp add: example_system_def)
  note step = sendDataToPrinter_discovery [OF unset, of "example_system ''linux''" "[]",
      THEN conjunct2, THEN conjunct2, rule_format, OF example_listPrinters_linux]
  show ?thesis
    using step [unfolded example_find_dymo option.case] p
    by (simp add: Let_def cups Buffer_concat_def example_service_def empty_config_def)
qed

text \<open>
  The claim as it was stated, \<open>PrinterNotFound\<close> also when discovery itself fails, does not
  hold: on a Linux system where \<open>lpstat\<close> cannot be run, the dispatcher fails with the
  error \<open>execute\<close> rejected with.
\<close>

theorem sendDataToPrinter_discovery_failure_counterexample:
  "interface (config example_service) = None
   \<and> listPrinters ((example_system ''linux'')\<lparr>execute := \<lambda>h cmd args stdin. Inl ''spawn lpstat ENOENT''\<rparr>) []
       = (Inl (SpoolerError ''spawn lpstat ENOENT''), [Execute ''lpstat'' [Some ''-e''] None])
   \<and> sendDataToPrinter
        ((example_system ''linux'')\<lparr>execute := \<lambda>h cmd args stdin. Inl ''spawn lpstat ENOENT''\<rparr>)
        example_service []
       = (Inl (SpoolerError ''spawn lpstat ENOENT''), example_service,
          [Execute ''lpstat'' [Some ''-e''] None])
   \<and> SpoolerError ''spawn lpstat ENOENT'' \<noteq> PrinterNotFound"
proof -
  have lp: "listPrinters ((example_system ''linux'')\<lparr>execute := \<lambda>h cmd args stdin. Inl ''spawn lpstat ENOENT''\<rparr>) []
       = (Inl (SpoolerError ''spawn lpstat ENOENT''), [Execute ''lpstat'' [Some ''-e''] None])"
    by (simp add: listPrinters_def listPrintersMacLinux_def run_execute_def IS_WINDOWS_def
          IS_MACOS_def IS_LINUX_def example_system_def)
  have unset: "\<not> js_truthy (interface (config example_service))"
    by (simp add: example_service_def empty_config_def js_truthy_def)
  show ?thesis
    by (simp add: sendDataToPrinter_unset [OF unset] lp)
       (simp add: example_service_def empty_config_def)
qed

subsection \<open>C9: the names of the Unix-like listing\<close>







subsection \<open>C2: the temporary file of the Windows transport\<close>

text \<open>
  Claim C2 asks that the temporary file be deleted whether the helper succeeds or fails.
  The code deletes it in the \<open>then\<close> branch only. What the code does when the helper
  fails: the file is written, \<open>RP.exe\<close> is run with the device id and the file name, the
  promise rejects with the helper's error, and no \<open>unlinkSync\<close> of the file is made.
\<close>

theorem windows_transport_keeps_file_on_failure:
  assumes "tmp = tmpFile sys None None None h"
    and "writeFileSync sys h tmp buffer = None"
    and "execute sys (h @ [WriteFileSync tmp buffer]) (path_join sys (dirname sys) ''RP.exe'')
           [deviceId_arg, Some tmp] (Some buffer) = Inl reason"
  shows "sendDataToWindowsPrinter sys buffer deviceId_arg h =
           (Inl (SpoolerError reason),
            h @ [WriteFileSync tmp buffer,
                 Execute (path_join sys (dirname sys) ''RP.exe'') [deviceId_arg, Some tmp]
                   (Some buffer)])
         \<and> (UnlinkSync tmp \<notin> set h \<longrightarrow>
              UnlinkSync tmp \<notin> set (snd (sendDataToWindowsPrinter sys buffer deviceId_arg h)))"
  using assms
  by (simp add: sendDataToWindowsPrinter_def run_execute_def Let_def)

theorem windows_transport_keeps_file_on_failure_witness:
  "sendDataToWindowsPrinter
      ((example_system ''win32'')\<lparr>execute := \<lambda>h cmd args stdin. Inl ''exit code 1''\<rparr>)
      [9] (Some ''DYMO LabelWriter 450'') [] =
     (Inl (SpoolerError ''exit code 1''),
      [WriteFileSync ''C:/Temp/tmp.000102030405060708090a0b0c0d0e0f'' [9],
       Execute ''C:/app/RP.exe''
         [Some ''DYMO LabelWriter 450'', Some ''C:/Temp/tmp.000102030405060708090a0b0c0d0e0f'']
         (Some [9])])"
proof -
  have t: "''C:/Temp/tmp.000102030405060708090a0b0c0d0e0f'' =
      tmpFile ((example_system ''win32'')\<lparr>execute := \<lambda>h cmd args stdin. Inl ''exit code 1''\<rparr>)
        None None None []"
    by (simp add: tmpFile_def example_system_def js_truthy_def)
  have w: "writeFileSync ((example_system ''win32'')\<lparr>execute := \<lambda>h cmd args stdin. Inl ''exit code 1''\<rparr>)
      [] ''C:/Temp/tmp.000102030405060708090a0b0c0d0e0f'' [9] = None"
    by (simp add: example_system_def)
  have e: "execute ((example_system ''win32'')\<lparr>execute := \<lambda>h cmd args stdin. Inl ''exit code 1''\<rparr>)
      ([] @ [WriteFileSync ''C:/Temp/tmp.000102030405060708090a0b0c0d0e0f'' [9]])
      (path_join ((example_system ''win32'')\<lparr>execute := \<lambda>h cmd args stdin. Inl ''exit code 1''\<rparr>)
         (dirname ((example_system ''win32'')\<lparr>execute := \<lambda>h cmd args stdin. Inl ''exit code 1''\<rparr>))
         ''RP.exe'')
      [Some ''DYMO LabelWriter 450'', Some ''C:/Temp/tmp.000102030405060708090a0b0c0d0e0f'']
      (Some [9]) = Inl ''exit code 1''"
    by (simp add: example_system_def)
  from windows_transport_keeps_file_on_failure [OF t w e] show ?thesis
    by (simp add: example_system_def)
qed

subsection \<open>C3: the Windows transport and a missing device id\<close>

text \<open>
  Claim C3 asks that dispatch to the Windows transport with an empty or missing device
  id fail with \<open>ConfigError\<close> before the helper runs, as the Cups and the Device
  transports do. The code has no such check. What it does: dispatch is the run of the
  Windows transport with the device id as it is; it never fails with \<open>ConfigError\<close>, and
  once the temporary file is written the helper is invoked with the empty or missing
  device id.
\<close>

theorem windows_dispatch_ignores_missing_deviceId:
  assumes "interface (config s) = Some ''WINDOWS''"
    and "deviceId (config s) = None \<or> deviceId (config s) = Some []"
    and "tmp = tmpFile sys None None None h"
  shows "sendDataToPrinter sys s h =
           (fst (sendDataToWindowsPrinter sys (Buffer_concat (chunks s)) (deviceId (config s)) h),
            s,
            snd (sendDataToWindowsPrinter sys (Buffer_concat (chunks s)) (deviceId (config s)) h))
         \<and> (\<forall>reason. fst (sendDataToPrinter sys s h) \<noteq> Inl (ConfigError reason))
         \<and> (writeFileSync sys h tmp (Buffer_concat (chunks s)) = None \<longrightarrow>
              Execute (path_join sys (dirname sys) ''RP.exe'') [deviceId (config s), Some tmp]
                (Some (Buffer_concat (chunks s)))
              \<in> set (snd (snd (sendDataToPrinter sys s h))))"
proof -
  have set: "js_truthy (interface (config s))"
    using assms(1) by (simp add: js_truthy_def)
  have d: "sendDataToPrinter sys s h =
           (fst (sendDataToWindowsPrinter sys (Buffer_concat (chunks s)) (deviceId (config s)) h),
            s,
            snd (sendDataToWindowsPrinter sys (Buffer_concat (chunks s)) (deviceId (config s)) h))"
    using assms(1)
    by (simp add: sendDataToPrinter_set [OF set] Let_def case_prod_beta
          PRINTER_INTERFACE_NETWORK_def PRINTER_INTERFACE_CUPS_def PRINTER_INTERFACE_WINDOWS_def)
  show ?thesis
    unfolding d using assms(3)
    by (auto simp: sendDataToWindowsPrinter_def run_execute_def Let_def
          split: option.splits sum.splits)
qed

theorem windows_dispatch_ignores_missing_deviceId_witness:
  "sendDataToPrinter (example_system ''win32'')
      \<lparr>config = empty_config\<lparr>interface := Some ''WINDOWS''\<rparr>, chunks = [[9]]\<rparr> [] =
     (Inr (),
      \<lparr>config = empty_config\<lparr>interface := Some ''WINDOWS''\<rparr>, chunks = [[9]]\<rparr>,
      [WriteFileSync ''C:/Temp/tmp.000102030405060708090a0b0c0d0e0f'' [9],
       Execute ''C:/app/RP.exe'' [None, Some ''C:/Temp/tmp.000102030405060708090a0b0c0d0e0f'']
         (Some [9]),
       UnlinkSync ''C:/Temp/tmp.000102030405060708090a0b0c0d0e0f''])"
proof -
  have i: "interface (config \<lparr>config = empty_config\<lparr>interface := Some ''WINDOWS''\<rparr>, chunks = [[9]]\<rparr>)
      = Some ''WINDOWS''"
    by simp
  have d: "deviceId (config \<lparr>config = empty_config\<lparr>interface := Some ''WINDOWS''\<rparr>, chunks = [[9]]\<rparr>)
        = None
      \<or> deviceId (config \<lparr>config = empty_config\<lparr>interface := Some ''WINDOWS''\<rparr>, chunks = [[9]]\<rparr>)
        = Some []"
    by (simp add: empty_config_def)
  have w: "sendDataToWindowsPrinter (example_system ''win32'') [9] None [] =
     (Inr (),
      [WriteFileSync ''C:/Temp/tmp.000102030405060708090a0b0c0d0e0f'' [9],
       Execute ''C:/app/RP.exe'' [None, Some ''C:/Temp/tmp.000102030405060708090a0b0c0d0e0f'']
         (Some [9]),
       UnlinkSync ''C:/Temp/tmp.000102030405060708090a0b0c0d0e0f''])"
    by code_simp
  from windows_dispatch_ignores_missing_deviceId [OF i d refl, of "example_system ''win32''" "[]"]
  show ?thesis
    by (simp add: Buffer_concat_def empty_config_def w)
qed

end
